theory Spec2Isabelle
  imports Main "HOL-Library.Word" "HOL-Library.Sublist"
begin

section \<open>Stonekeep save game editor: data model\<close>

text \<open>
  The two enumerations of \<^verbatim>\<open>stonekeep.py\<close>, the two constant tables and the
  \<^verbatim>\<open>game_character\<close> class. A Python dictionary is a partial map; a field
  that the constructor defaults to \<^verbatim>\<open>None\<close> is an option.
\<close>

datatype character_name = Drake | Farley

datatype attributes = health | agility



record game_character =
  name :: "character_name option"
  attributes :: "attributes option"

section \<open>The environment: files, terminal, exceptions\<close>

text \<open>
  A file holds bytes. The file system maps a path to the node found there: a regular
  file that \<^verbatim>\<open>open(path, "rb+")\<close> opens, or a node the operating system
  refuses to open that way (a directory, for one) with the text of the
  \<^verbatim>\<open>OSError\<close> it raises. The directories on the way to a node are not listed;
  a world holds nodes only at paths that \<^verbatim>\<open>open\<close> can reach.
\<close>

type_synonym byte = "8 word"

datatype node = File "byte list" | Refused string

datatype dict_key = NameKey "character_name option" | AttrKey "attributes option"

datatype exn =
    ValueError string
  | FileNotFoundError
  | OSError string
  | KeyError dict_key
  | EOFError
  | RecursionError
  | SystemExit int

text \<open>
  What reaches the terminal: a \<^verbatim>\<open>print\<close> call with its argument, the prompt of an
  \<^verbatim>\<open>input\<close> call, a shell command run by \<^verbatim>\<open>os.system\<close>.
\<close>

datatype event = Print string | Prompt string | System string

record world =
  files :: "string \<rightharpoonup> node"
  keyboard :: "string list"
  terminal :: "event list"
  os_name :: string

definition py_print :: "string \<Rightarrow> world \<Rightarrow> world" where
  "py_print s w = w\<lparr>terminal := terminal w @ [Print s]\<rparr>"


subsection \<open>Formatting integers\<close>

text \<open>\<^verbatim>\<open>str(n)\<close> of a Python integer, as the f-strings of the messages use it.\<close>

definition digit_char :: "nat \<Rightarrow> char" where
  "digit_char d = ''0123456789'' ! d"

fun str_nat :: "nat \<Rightarrow> string" where
  "str_nat n = (if n < 10 then [digit_char n] else str_nat (n div 10) @ [digit_char (n mod 10)])"

declare str_nat.simps [simp del]

definition str_int :: "int \<Rightarrow> string" where
  "str_int i = (if i < 0 then CHR ''-'' # str_nat (nat (- i)) else str_nat (nat i))"

section \<open>The patch engine: \<^verbatim>\<open>binary_write\<close>\<close>

text \<open>
  \<^verbatim>\<open>bytes([value])\<close>: one byte for a value in \<^verbatim>\<open>range(0, 256)\<close>, a
  \<^verbatim>\<open>ValueError\<close> for any other integer.
\<close>

definition bytes1 :: "int \<Rightarrow> exn + byte" where
  "bytes1 v = (if 0 \<le> v \<and> v < 256 then Inr (word_of_int v)
               else Inl (ValueError ''bytes must be in range(0, 256)''))"

subsection \<open>Opening the file\<close>

text \<open>
  \<^verbatim>\<open>repr\<close> of a string, which the text of an \<^verbatim>\<open>OSError\<close> holds for the file
  name: single quotes unless the string has a single quote and no double quote, a
  backslash before the quote and the backslash, the escapes of tab, newline and return,
  and \<^verbatim>\<open>\xNN\<close> for the other characters that are not printable.
\<close>

definition hex_digit :: "nat \<Rightarrow> char" where
  "hex_digit d = ''0123456789abcdef'' ! d"

definition repr_char :: "char \<Rightarrow> char \<Rightarrow> string" where
  "repr_char q c =
     (let n = of_char c :: nat
      in if c = q \<or> c = CHR 0x5C then [CHR 0x5C, c]
         else if n = 9 then [CHR 0x5C, CHR ''t'']
         else if n = 10 then [CHR 0x5C, CHR ''n'']
         else if n = 13 then [CHR 0x5C, CHR ''r'']
         else if n < 32 \<or> n = 127 \<or> (128 \<le> n \<and> n \<le> 160) \<or> n = 173
           then [CHR 0x5C, CHR ''x'', hex_digit (n div 16), hex_digit (n mod 16)]
         else [c])"

definition py_repr :: "string \<Rightarrow> string" where
  "py_repr s =
     (let q = (if CHR 0x27 \<in> set s \<and> CHR 0x22 \<notin> set s then CHR 0x22 else CHR 0x27)
      in q # concat (map (repr_char q) s) @ [q])"

text \<open>
  The length of a path as the operating system counts it, in bytes of UTF-8, and the
  names between the slashes of a path.
\<close>

definition utf8_len :: "string \<Rightarrow> nat" where
  "utf8_len s = length s + length (filter (\<lambda>c. 128 \<le> (of_char c :: nat)) s)"

definition path_components :: "string \<Rightarrow> string list" where
  "path_components p =
     foldr (\<lambda>c acc. if c = CHR ''/'' then [] # acc else (c # hd acc) # tl acc) p [[]]"

definition is_file :: "world \<Rightarrow> string \<Rightarrow> bool" where
  "is_file w p = (case files w p of Some (File bs) \<Rightarrow> True | _ \<Rightarrow> False)"

text \<open>Whether a path goes through a regular file: a slash follows the path of a file.\<close>

fun through_file_from :: "world \<Rightarrow> string \<Rightarrow> string \<Rightarrow> bool" where
  "through_file_from w pre [] = False"
| "through_file_from w pre (c # cs) =
     ((c = CHR ''/'' \<and> is_file w pre) \<or> through_file_from w (pre @ [c]) cs)"

definition through_file :: "world \<Rightarrow> string \<Rightarrow> bool" where
  "through_file w p = through_file_from w [] p"

text \<open>
  \<^verbatim>\<open>open(file_path, "rb+")\<close>, as a POSIX system answers it. A regular file is opened
  and never truncated or created. Where there is no node, Python refuses a path with a
  null character itself, the system refuses a path of 4096 bytes or more, a path through
  a regular file and a name of more than 255 bytes, and reports any other path as not
  found.
\<close>

definition py_open :: "string \<Rightarrow> world \<Rightarrow> exn + byte list" where
  "py_open file_path w =
     (case files w file_path of
        Some (File bs) \<Rightarrow> Inr bs
      | Some (Refused msg) \<Rightarrow> Inl (OSError msg)
      | None \<Rightarrow>
          if CHR 0x00 \<in> set file_path then Inl (ValueError ''embedded null byte'')
          else if 4096 \<le> utf8_len file_path then
            Inl (OSError (''[Errno 36] File name too long: '' @ py_repr file_path))
          else if through_file w file_path then
            Inl (OSError (''[Errno 20] Not a directory: '' @ py_repr file_path))
          else if list_ex (\<lambda>c. 255 < utf8_len c) (path_components file_path) then
            Inl (OSError (''[Errno 36] File name too long: '' @ py_repr file_path))
          else Inl FileNotFoundError)"

subsection \<open>The function\<close>

text \<open>
  The body of the \<^verbatim>\<open>try\<close> block. The checks come in the order of the source:
  the offset's sign, the value's range, then the file is opened, its size read and
  compared with the offset, and only then the byte is built and written. An exception
  leaves the block with the file as it was: every \<^verbatim>\<open>raise\<close> precedes the
  \<^verbatim>\<open>f.write\<close> call.
\<close>

definition binary_write_try :: "int \<Rightarrow> int \<Rightarrow> int \<Rightarrow> string \<Rightarrow> world \<Rightarrow> (exn + unit) \<times> world" where
  "binary_write_try val max_value offset file_path w =
     (if offset < 0 then (Inl (ValueError ''Offset must be non-negitive''), w)
      else if \<not> (0 \<le> val \<and> val \<le> max_value) then
        (Inl (ValueError (''Value must no exceed max value:'' @ str_int max_value)), w)
      else
        (case py_open file_path w of
           Inl e \<Rightarrow> (Inl e, w)
         | Inr bs \<Rightarrow>
             (let file_size = int (length bs) in
              if offset \<ge> file_size then
                (Inl (ValueError (''Offset:'' @ str_int offset @
                   '' is beyound end of file [size]:'' @ str_int file_size @ '' bytes'')), w)
              else
                (case bytes1 val of
                   Inl e \<Rightarrow> (Inl e, w)
                 | Inr b \<Rightarrow>
                     (Inr (),
                      py_print (''\<newline>Wrote value:'' @ str_int val @ '' to offset:'' @
                                str_int offset @ ''\<newline>'')
                        (w\<lparr>files := (files w)(file_path \<mapsto> File (bs[nat offset := b]))\<rparr>))))))"

text \<open>
  The three \<^verbatim>\<open>except\<close> clauses: each prints one line and the function returns
  \<^verbatim>\<open>None\<close>. Any other exception would leave the function.
\<close>

definition binary_write :: "int \<Rightarrow> int \<Rightarrow> int \<Rightarrow> string \<Rightarrow> world \<Rightarrow> (exn + unit) \<times> world" where
  "binary_write val max_value offset file_path w =
     (case binary_write_try val max_value offset file_path w of
        (Inr u, w') \<Rightarrow> (Inr u, w')
      | (Inl FileNotFoundError, w') \<Rightarrow> (Inr (), py_print (''File not found: '' @ file_path) w')
      | (Inl (ValueError err), w') \<Rightarrow> (Inr (), py_print (''Value Error: '' @ err) w')
      | (Inl (OSError err), w') \<Rightarrow> (Inr (), py_print (''OS Error: '' @ err) w')
      | (Inl e, w') \<Rightarrow> (Inl e, w'))"

section \<open>Strings and \<^verbatim>\<open>clean_file_path\<close>\<close>

text \<open>
  A character is a code point below 256. \<^verbatim>\<open>str.strip()\<close> removes the characters
  for which \<^verbatim>\<open>str.isspace\<close> holds from both ends, \<^verbatim>\<open>str.strip(chars)\<close>
  those of \<^verbatim>\<open>chars\<close>; \<^verbatim>\<open>str.lower()\<close> maps the capital letters, those
  with a diacritic too. \<^verbatim>\<open>Path\<close> keeps the string it is built from; what
  \<^verbatim>\<open>str(path)\<close> makes of it is pathlib's, and a parameter of the menus.
\<close>

definition isspace :: "char \<Rightarrow> bool" where
  "isspace c = (of_char c \<in> {9, 10, 11, 12, 13, 28, 29, 30, 31, 32, 133, 160 :: nat})"

definition strip :: "string \<Rightarrow> string" where
  "strip s = rev (dropWhile isspace (rev (dropWhile isspace s)))"

definition strip_chars :: "string \<Rightarrow> string \<Rightarrow> string" where
  "strip_chars chars s =
     rev (dropWhile (\<lambda>c. c \<in> set chars) (rev (dropWhile (\<lambda>c. c \<in> set chars) s)))"

definition startswith :: "string \<Rightarrow> string \<Rightarrow> bool" where
  "startswith s p = (take (length p) s = p)"



datatype Path = Path string

definition clean_file_path :: "string \<Rightarrow> Path" where
  "clean_file_path raw_path =
     (let cleaned = strip raw_path;
          cleaned = (if startswith cleaned ''& '' then drop 2 cleaned else cleaned);
          cleaned = strip_chars [CHR 0x27] (strip_chars [CHR 0x22] cleaned)
      in Path cleaned)"

section \<open>The menus\<close>








subsection \<open>A session at the menus\<close>



section \<open>A small world for the examples\<close>

text \<open>
  One save file of four zero bytes, one directory, nothing typed and nothing shown yet.
\<close>

definition demo_world :: world where
  "demo_world =
     \<lparr>files = [''game.sav'' \<mapsto> File [0, 0, 0, 0],
               ''saves'' \<mapsto> Refused (''[Errno 21] Is a directory: '' @ py_repr ''saves'')],
      keyboard = [], terminal = [], os_name = ''posix''\<rparr>"


section \<open>The patch engine: results\<close>

text \<open>
  C6. A negative offset is refused first: whatever the value, the ceiling and the path
  (also a path with no file), the call takes the "Offset must be non-negitive" failure,
  the one line printed is that message, and no file is touched. The check stands before
  the value's range check and before the file is opened.
\<close>

theorem binary_write_negative_offset:
  "offset < 0 \<Longrightarrow>
     binary_write_try val max_value offset file_path w =
       (Inl (ValueError ''Offset must be non-negitive''), w) \<and>
     binary_write val max_value offset file_path w =
       (Inr (), py_print ''Value Error: Offset must be non-negitive'' w) \<and>
     files (snd (binary_write val max_value offset file_path w)) = files w"
  by (simp add: binary_write_def binary_write_try_def py_print_def)

theorem binary_write_negative_offset_witness:
  "(-1::int) < 0 \<and>
   binary_write_try 300 255 (-1) ''nowhere.sav'' demo_world =
     (Inl (ValueError ''Offset must be non-negitive''), demo_world) \<and>
   terminal (snd (binary_write 300 255 (-1) ''nowhere.sav'' demo_world)) =
     [Print ''Value Error: Offset must be non-negitive''] \<and>
   files (snd (binary_write 300 255 (-1) ''nowhere.sav'' demo_world)) = files demo_world"
  using binary_write_negative_offset [of "-1" 300 255 "''nowhere.sav''" demo_world]
  by (simp add: py_print_def demo_world_def)

subsection \<open>What opening the file and the \<^verbatim>\<open>try\<close> block can raise\<close>

lemma py_open_file:
  "files w file_path = Some (File bs) \<Longrightarrow> py_open file_path w = Inr bs"
  by (simp add: py_open_def)

lemma py_open_Inr:
  "py_open file_path w = Inr bs \<Longrightarrow> files w file_path = Some (File bs)"
  by (auto simp: py_open_def split: option.splits node.splits if_splits)

lemma py_open_raises:
  "py_open file_path w = Inl e \<Longrightarrow>
     e = FileNotFoundError \<or> e = ValueError ''embedded null byte'' \<or> (\<exists>m. e = OSError m)"
  by (auto simp: py_open_def split: option.splits node.splits if_splits)

lemma binary_write_try_keeps_world_on_error:
  "binary_write_try val max_value offset file_path w = (Inl e, w') \<Longrightarrow> w' = w"
  by (auto simp: binary_write_try_def Let_def split: if_splits sum.splits)

lemma binary_write_try_raises:
  "binary_write_try val max_value offset file_path w = (Inl e, w') \<Longrightarrow>
     e = FileNotFoundError \<or> (\<exists>m. e = ValueError m) \<or> (\<exists>m. e = OSError m)"
  by (auto simp: binary_write_try_def bytes1_def Let_def
      split: if_splits sum.splits dest: py_open_raises)


text \<open>
  C5, as the code has it. A value below 0 or above \<^verbatim>\<open>max_value\<close> never leads to a
  write: the files are as before. When the offset is not negative, the failure is the
  value's ("Value must no exceed max value"), decided before the file is opened.
\<close>

theorem binary_write_value_out_of_range:
  assumes "val < 0 \<or> val > max_value"
  shows "files (snd (binary_write val max_value offset file_path w)) = files w \<and>
         (0 \<le> offset \<longrightarrow>
            binary_write_try val max_value offset file_path w =
              (Inl (ValueError (''Value must no exceed max value:'' @ str_int max_value)), w) \<and>
            binary_write val max_value offset file_path w =
              (Inr (), py_print (''Value Error: Value must no exceed max value:'' @
                                 str_int max_value) w))"
  using assms by (auto simp: binary_write_def binary_write_try_def py_print_def)

theorem binary_write_value_out_of_range_witness:
  "((300::int) < 0 \<or> (300::int) > 255) \<and> (0::int) \<le> 2 \<and>
   files (snd (binary_write 300 255 2 ''game.sav'' demo_world)) ''game.sav'' =
     Some (File [0, 0, 0, 0]) \<and>
   binary_write_try 300 255 2 ''game.sav'' demo_world =
     (Inl (ValueError ''Value must no exceed max value:255''), demo_world) \<and>
   terminal (snd (binary_write 300 255 2 ''game.sav'' demo_world)) =
     [Print ''Value Error: Value must no exceed max value:255'']"
proof -
  have s: "str_int 255 = ''255''" by code_simp
  have h: "(300::int) < 0 \<or> (300::int) > 255" by simp
  show ?thesis
    using binary_write_value_out_of_range [OF h, of 2 "''game.sav''" demo_world]
    by (simp add: s py_print_def demo_world_def)
qed

text \<open>
  C5 as stated fails when the offset is negative too: the value 300 exceeds the ceiling
  255, yet the failure reported is the offset's, which is checked first.
\<close>

theorem binary_write_value_range_counterexample:
  "(300::int) > 255 \<and>
   binary_write_try 300 255 (-1) ''game.sav'' demo_world =
     (Inl (ValueError ''Offset must be non-negitive''), demo_world) \<and>
   binary_write_try 300 255 (-1) ''game.sav'' demo_world \<noteq>
     (Inl (ValueError (''Value must no exceed max value:'' @ str_int 255)), demo_world) \<and>
   terminal (snd (binary_write 300 255 (-1) ''game.sav'' demo_world)) =
     [Print ''Value Error: Offset must be non-negitive'']"
  by (simp add: binary_write_def binary_write_try_def py_print_def demo_world_def)

text \<open>
  C1. For a file longer than the offset, an offset that is not negative and a value with
  \<^verbatim>\<open>0 <= value <= max_value <= 255\<close>, the call writes one byte: afterwards the file
  has the same length, the byte at the offset is the value (read back as an unsigned
  number), every other byte of the file is what it was, and so is every other file.
\<close>

theorem binary_write_patches_one_byte:
  assumes "files w file_path = Some (File bs)"
    and "0 \<le> offset" and "offset < int (length bs)"
    and "0 \<le> val" and "val \<le> max_value" and "max_value \<le> 255"
  shows "binary_write val max_value offset file_path w =
           (Inr (), py_print (''\<newline>Wrote value:'' @ str_int val @ '' to offset:'' @
                                str_int offset @ ''\<newline>'')
              (w\<lparr>files := (files w)(file_path \<mapsto> File (bs[nat offset := word_of_int val]))\<rparr>)) \<and>
         length (bs[nat offset := word_of_int val]) = length bs \<and>
         uint ((bs[nat offset := word_of_int val :: byte]) ! nat offset) = val \<and>
         (\<forall>i < length bs. i \<noteq> nat offset \<longrightarrow> (bs[nat offset := word_of_int val]) ! i = bs ! i) \<and>
         (\<forall>p. p \<noteq> file_path \<longrightarrow>
            files (snd (binary_write val max_value offset file_path w)) p = files w p)"
proof -
  have b: "bytes1 val = Inr (word_of_int val)"
    using assms by (simp add: bytes1_def)
  have run: "binary_write val max_value offset file_path w =
           (Inr (), py_print (''\<newline>Wrote value:'' @ str_int val @ '' to offset:'' @
                                str_int offset @ ''\<newline>'')
              (w\<lparr>files := (files w)(file_path \<mapsto> File (bs[nat offset := word_of_int val]))\<rparr>))"
    using assms b by (simp add: binary_write_def binary_write_try_def py_open_file)
  have "nat offset < length bs" using assms by linarith
  moreover have "uint (word_of_int val :: byte) = val"
    using assms by (simp add: uint_word_of_int take_bit_int_eq_self)
  ultimately have byte: "uint ((bs[nat offset := word_of_int val :: byte]) ! nat offset) = val"
    by simp
  show ?thesis
    unfolding run using byte by (simp add: py_print_def)
qed

theorem binary_write_patches_one_byte_witness:
  "files demo_world ''game.sav'' = Some (File [0, 0, 0, 0]) \<and>
   (0::int) \<le> 2 \<and> (2::int) < int (length [0, 0, 0, 0 :: byte]) \<and>
   (0::int) \<le> 255 \<and> (255::int) \<le> 255 \<and>
   files (snd (binary_write 255 255 2 ''game.sav'' demo_world)) ''game.sav'' =
     Some (File [0, 0, 255, 0]) \<and>
   files (snd (binary_write 255 255 2 ''game.sav'' demo_world)) ''saves'' =
     files demo_world ''saves'' \<and>
   terminal (snd (binary_write 255 255 2 ''game.sav'' demo_world)) =
     [Print ''\<newline>Wrote value:255 to offset:2\<newline>'']"
proof -
  have f: "files demo_world ''game.sav'' = Some (File [0, 0, 0, 0])"
    by (simp add: demo_world_def)
  have s: "str_int 255 = ''255''" "str_int 2 = ''2''" by code_simp+
  have n: "nat 2 = Suc (Suc 0)" by simp
  show ?thesis
    using binary_write_patches_one_byte [OF f, of 2 255 255]
    by (simp add: s n py_print_def demo_world_def)
qed

text \<open>
  C4, as the code has it. For a file and an offset at or beyond its size (the size
  itself included) nothing is written and the file does not grow, whatever the value.
  When the value is within \<^verbatim>\<open>[0, max_value]\<close> the failure is the one of an offset
  beyond the end of the file, with the offset and the size in its message.
\<close>

theorem binary_write_offset_beyond_file:
  assumes "files w file_path = Some (File bs)" and "offset \<ge> int (length bs)"
  shows "files (snd (binary_write val max_value offset file_path w)) = files w \<and>
         (0 \<le> val \<and> val \<le> max_value \<longrightarrow>
            binary_write_try val max_value offset file_path w =
              (Inl (ValueError (''Offset:'' @ str_int offset @
                 '' is beyound end of file [size]:'' @ str_int (int (length bs)) @ '' bytes'')), w) \<and>
            binary_write val max_value offset file_path w =
              (Inr (), py_print (''Value Error: Offset:'' @ str_int offset @
                 '' is beyound end of file [size]:'' @ str_int (int (length bs)) @ '' bytes'') w))"
  using assms by (auto simp: binary_write_def binary_write_try_def py_print_def py_open_file)

theorem binary_write_offset_beyond_file_witness:
  "files demo_world ''game.sav'' = Some (File [0, 0, 0, 0]) \<and>
   (4::int) \<ge> int (length [0, 0, 0, 0 :: byte]) \<and> (0::int) \<le> 10 \<and> (10::int) \<le> 255 \<and>
   files (snd (binary_write 10 255 4 ''game.sav'' demo_world)) ''game.sav'' =
     Some (File [0, 0, 0, 0]) \<and>
   binary_write_try 10 255 4 ''game.sav'' demo_world =
     (Inl (ValueError ''Offset:4 is beyound end of file [size]:4 bytes''), demo_world) \<and>
   terminal (snd (binary_write 10 255 4 ''game.sav'' demo_world)) =
     [Print ''Value Error: Offset:4 is beyound end of file [size]:4 bytes'']"
proof -
  have f: "files demo_world ''game.sav'' = Some (File [0, 0, 0, 0])"
    by (simp add: demo_world_def)
  have s: "str_int 4 = ''4''" by code_simp
  show ?thesis
    using binary_write_offset_beyond_file [OF f, of 4 10 255]
    by (simp add: s py_print_def demo_world_def)
qed

text \<open>
  C4 as stated fails when the value is out of range too: with the offset equal to the
  file's size and the value 300 above the ceiling 255, the failure reported is the
  value's, which is checked before the file is opened.
\<close>

theorem binary_write_offset_beyond_file_counterexample:
  "files demo_world ''game.sav'' = Some (File [0, 0, 0, 0]) \<and>
   (4::int) \<ge> int (length [0, 0, 0, 0 :: byte]) \<and>
   binary_write_try 300 255 4 ''game.sav'' demo_world =
     (Inl (ValueError ''Value must no exceed max value:255''), demo_world) \<and>
   binary_write_try 300 255 4 ''game.sav'' demo_world \<noteq>
     (Inl (ValueError (''Offset:'' @ str_int 4 @ '' is beyound end of file [size]:'' @
        str_int 4 @ '' bytes'')), demo_world) \<and>
   terminal (snd (binary_write 300 255 4 ''game.sav'' demo_world)) =
     [Print ''Value Error: Value must no exceed max value:255'']"
proof -
  have s: "str_int 255 = ''255''" by code_simp
  show ?thesis
    by (simp add: s binary_write_def binary_write_try_def py_print_def demo_world_def)
qed

text \<open>
  C9. A value above 255 that the ceiling admits passes the range check (the failure is
  never the value-range one), but no single byte holds it: \<^verbatim>\<open>bytes([value])\<close>
  raises \<^verbatim>\<open>ValueError\<close> before \<^verbatim>\<open>f.write\<close> is called. No file changes, no
  exception leaves the call, and with an existing file and an offset inside it the line
  printed is that of the byte conversion.
\<close>

theorem binary_write_value_above_byte:
  assumes "255 < val" and "val \<le> max_value"
  shows "binary_write_try val max_value offset file_path w \<noteq>
           (Inl (ValueError (''Value must no exceed max value:'' @ str_int max_value)), w) \<and>
         bytes1 val = Inl (ValueError ''bytes must be in range(0, 256)'') \<and>
         files (snd (binary_write val max_value offset file_path w)) = files w \<and>
         fst (binary_write val max_value offset file_path w) = Inr () \<and>
         (\<forall>bs. files w file_path = Some (File bs) \<and> 0 \<le> offset \<and> offset < int (length bs) \<longrightarrow>
            binary_write val max_value offset file_path w =
              (Inr (), py_print ''Value Error: bytes must be in range(0, 256)'' w))"
proof (cases "py_open file_path w")
  case (Inl e)
  then have "e = FileNotFoundError \<or> e = ValueError ''embedded null byte'' \<or>
      (\<exists>m. e = OSError m)"
    by (rule py_open_raises)
  moreover have "\<forall>bs. files w file_path \<noteq> Some (File bs)"
    using Inl by (auto simp: py_open_file)
  ultimately show ?thesis using assms Inl
    by (auto simp: binary_write_def binary_write_try_def bytes1_def py_print_def)
next
  case (Inr bs)
  then have "files w file_path = Some (File bs)" by (rule py_open_Inr)
  then show ?thesis using assms Inr
    by (auto simp: binary_write_def binary_write_try_def bytes1_def py_print_def Let_def)
qed

theorem binary_write_value_above_byte_witness:
  "(255::int) < 300 \<and> (300::int) \<le> 1000 \<and>
   files demo_world ''game.sav'' = Some (File [0, 0, 0, 0]) \<and>
   (0::int) \<le> 2 \<and> (2::int) < int (length [0, 0, 0, 0 :: byte]) \<and>
   bytes1 300 = Inl (ValueError ''bytes must be in range(0, 256)'') \<and>
   files (snd (binary_write 300 1000 2 ''game.sav'' demo_world)) ''game.sav'' =
     Some (File [0, 0, 0, 0]) \<and>
   binary_write 300 1000 2 ''game.sav'' demo_world =
     (Inr (), py_print ''Value Error: bytes must be in range(0, 256)'' demo_world)"
proof -
  have h: "(255::int) < 300" "(300::int) \<le> 1000" by simp_all
  have f: "files demo_world ''game.sav'' = Some (File [0, 0, 0, 0])"
    by (simp add: demo_world_def)
  show ?thesis
    using f binary_write_value_above_byte [OF h, of 2 "''game.sav''" demo_world]
    by (simp add: py_print_def demo_world_def)
qed

text \<open>
  C2, as the code has it. The engine prints: every call puts exactly one line on the
  terminal itself, and which line is decided by the checks in their order: the offset's
  sign, the value's range, what opening the file gives, the offset against the size,
  the conversion to a byte, and after a write the success line with the value and the
  offset.
\<close>

theorem binary_write_prints_one_line:
  "(\<exists>line. terminal (snd (binary_write val max_value offset file_path w)) =
            terminal w @ [Print line]) \<and>
   (offset < 0 \<longrightarrow>
      terminal (snd (binary_write val max_value offset file_path w)) =
        terminal w @ [Print ''Value Error: Offset must be non-negitive'']) \<and>
   (0 \<le> offset \<and> (val < 0 \<or> max_value < val) \<longrightarrow>
      terminal (snd (binary_write val max_value offset file_path w)) =
        terminal w @ [Print (''Value Error: Value must no exceed max value:'' @
                             str_int max_value)]) \<and>
   (0 \<le> offset \<and> 0 \<le> val \<and> val \<le> max_value \<longrightarrow>
      (py_open file_path w = Inl FileNotFoundError \<longrightarrow>
         terminal (snd (binary_write val max_value offset file_path w)) =
           terminal w @ [Print (''File not found: '' @ file_path)]) \<and>
      (\<forall>m. py_open file_path w = Inl (ValueError m) \<longrightarrow>
         terminal (snd (binary_write val max_value offset file_path w)) =
           terminal w @ [Print (''Value Error: '' @ m)]) \<and>
      (\<forall>m. py_open file_path w = Inl (OSError m) \<longrightarrow>
         terminal (snd (binary_write val max_value offset file_path w)) =
           terminal w @ [Print (''OS Error: '' @ m)]) \<and>
      (\<forall>bs. py_open file_path w = Inr bs \<longrightarrow>
         (int (length bs) \<le> offset \<longrightarrow>
            terminal (snd (binary_write val max_value offset file_path w)) =
              terminal w @ [Print (''Value Error: Offset:'' @ str_int offset @
                 '' is beyound end of file [size]:'' @ str_int (int (length bs)) @
                 '' bytes'')]) \<and>
         (offset < int (length bs) \<and> 255 < val \<longrightarrow>
            terminal (snd (binary_write val max_value offset file_path w)) =
              terminal w @ [Print ''Value Error: bytes must be in range(0, 256)'']) \<and>
         (offset < int (length bs) \<and> val \<le> 255 \<longrightarrow>
            terminal (snd (binary_write val max_value offset file_path w)) =
              terminal w @ [Print (''\<newline>Wrote value:'' @ str_int val @
                 '' to offset:'' @ str_int offset @ ''\<newline>'')])))"
proof -
  have one: "\<exists>line. terminal (snd (binary_write val max_value offset file_path w)) =
            terminal w @ [Print line]"
  proof (cases "binary_write_try val max_value offset file_path w")
    case (Pair r w')
    show ?thesis
    proof (cases r)
      case (Inl e)
      with Pair have "w' = w"
        by (simp add: binary_write_try_keeps_world_on_error)
      moreover from Pair Inl
      have "e = FileNotFoundError \<or> (\<exists>m. e = ValueError m) \<or> (\<exists>m. e = OSError m)"
        by (simp add: binary_write_try_raises)
      ultimately show ?thesis using Pair Inl
        by (auto simp: binary_write_def py_print_def)
    next
      case (Inr u)
      with Pair have "\<exists>line. terminal w' = terminal w @ [Print line]"
        by (auto simp: binary_write_try_def py_print_def Let_def split: if_splits sum.splits)
      with Pair Inr show ?thesis by (simp add: binary_write_def)
    qed
  qed
  have neg: "offset < 0 \<longrightarrow>
      terminal (snd (binary_write val max_value offset file_path w)) =
        terminal w @ [Print ''Value Error: Offset must be non-negitive'']"
    by (simp add: binary_write_def binary_write_try_def py_print_def)
  have range: "0 \<le> offset \<and> (val < 0 \<or> max_value < val) \<longrightarrow>
      terminal (snd (binary_write val max_value offset file_path w)) =
        terminal w @ [Print (''Value Error: Value must no exceed max value:'' @
                             str_int max_value)]"
    by (auto simp: binary_write_def binary_write_try_def py_print_def)
  have opened: "0 \<le> offset \<and> 0 \<le> val \<and> val \<le> max_value \<longrightarrow>
      (py_open file_path w = Inl FileNotFoundError \<longrightarrow>
         terminal (snd (binary_write val max_value offset file_path w)) =
           terminal w @ [Print (''File not found: '' @ file_path)]) \<and>
      (\<forall>m. py_open file_path w = Inl (ValueError m) \<longrightarrow>
         terminal (snd (binary_write val max_value offset file_path w)) =
           terminal w @ [Print (''Value Error: '' @ m)]) \<and>
      (\<forall>m. py_open file_path w = Inl (OSError m) \<longrightarrow>
         terminal (snd (binary_write val max_value offset file_path w)) =
           terminal w @ [Print (''OS Error: '' @ m)]) \<and>
      (\<forall>bs. py_open file_path w = Inr bs \<longrightarrow>
         (int (length bs) \<le> offset \<longrightarrow>
            terminal (snd (binary_write val max_value offset file_path w)) =
              terminal w @ [Print (''Value Error: Offset:'' @ str_int offset @
                 '' is beyound end of file [size]:'' @ str_int (int (length bs)) @
                 '' bytes'')]) \<and>
         (offset < int (length bs) \<and> 255 < val \<longrightarrow>
            terminal (snd (binary_write val max_value offset file_path w)) =
              terminal w @ [Print ''Value Error: bytes must be in range(0, 256)'']) \<and>
         (offset < int (length bs) \<and> val \<le> 255 \<longrightarrow>
            terminal (snd (binary_write val max_value offset file_path w)) =
              terminal w @ [Print (''\<newline>Wrote value:'' @ str_int val @
                 '' to offset:'' @ str_int offset @ ''\<newline>'')]))"
    by (auto simp: binary_write_def binary_write_try_def bytes1_def py_print_def Let_def)
  from one neg range opened show ?thesis by (intro conjI)
qed

theorem binary_write_prints_one_line_witness:
  "terminal (snd (binary_write 7 255 (-1) ''game.sav'' demo_world)) =
     [Print ''Value Error: Offset must be non-negitive''] \<and>
   terminal (snd (binary_write 300 255 2 ''game.sav'' demo_world)) =
     [Print ''Value Error: Value must no exceed max value:255''] \<and>
   py_open ''nowhere.sav'' demo_world = Inl FileNotFoundError \<and>
   terminal (snd (binary_write 7 255 2 ''nowhere.sav'' demo_world)) =
     [Print ''File not found: nowhere.sav''] \<and>
   py_open ''game.sav'' demo_world = Inr [0, 0, 0, 0] \<and>
   terminal (snd (binary_write 7 255 4 ''game.sav'' demo_world)) =
     [Print ''Value Error: Offset:4 is beyound end of file [size]:4 bytes''] \<and>
   terminal (snd (binary_write 300 1000 2 ''game.sav'' demo_world)) =
     [Print ''Value Error: bytes must be in range(0, 256)''] \<and>
   terminal (snd (binary_write 7 255 2 ''game.sav'' demo_world)) =
     [Print ''\<newline>Wrote value:7 to offset:2\<newline>'']"
proof -
  have s: "str_int 255 = ''255''" "str_int 4 = ''4''" "str_int 7 = ''7''" "str_int 2 = ''2''"
    by code_simp+
  have t: "terminal demo_world = []" by (simp add: demo_world_def)
  have o1: "py_open ''nowhere.sav'' demo_world = Inl FileNotFoundError"
    by (simp add: py_open_def demo_world_def through_file_def is_file_def utf8_len_def
        path_components_def)
  have o2: "py_open ''game.sav'' demo_world = Inr [0, 0, 0, 0]"
    by (simp add: py_open_def demo_world_def)
  show ?thesis
    using o1 o2
      binary_write_prints_one_line [of 7 255 "-1" "''game.sav''" demo_world]
      binary_write_prints_one_line [of 300 255 2 "''game.sav''" demo_world]
      binary_write_prints_one_line [of 7 255 2 "''nowhere.sav''" demo_world]
      binary_write_prints_one_line [of 7 255 4 "''game.sav''" demo_world]
      binary_write_prints_one_line [of 300 1000 2 "''game.sav''" demo_world]
      binary_write_prints_one_line [of 7 255 2 "''game.sav''" demo_world]
    by (simp add: s t)
qed

text \<open>
  C2 as stated fails: on a negative offset the engine itself prints the error line, and
  the caller gets the same \<^verbatim>\<open>None\<close> as after a successful write.
\<close>

theorem binary_write_prints_counterexample:
  "terminal (snd (binary_write 7 255 (-1) ''game.sav'' demo_world)) =
     [Print ''Value Error: Offset must be non-negitive''] \<and>
   terminal demo_world = [] \<and>
   fst (binary_write 7 255 (-1) ''game.sav'' demo_world) =
     fst (binary_write 7 255 2 ''game.sav'' demo_world)"
  by (simp add: binary_write_def binary_write_try_def bytes1_def py_print_def py_open_def
      demo_world_def)




section \<open>The menus and the program\<close>

subsection \<open>One step of a menu\<close>












subsection \<open>Whole sessions\<close>














section \<open>The path typed\<close>

subsection \<open>Cleaning the path\<close>

lemma strip_by_decomp:
  "\<exists>pre suf. s = pre @ rev (dropWhile P (rev (dropWhile P s))) @ suf \<and>
     (\<forall>c\<in>set pre. P c) \<and> (\<forall>c\<in>set suf. P c)"
proof -
  define t where "t = dropWhile P s"
  have "rev (dropWhile P (rev t)) @ rev (takeWhile P (rev t)) =
          rev (takeWhile P (rev t) @ dropWhile P (rev t))"
    by (simp only: rev_append)
  also have "\<dots> = rev (rev t)" by (simp only: takeWhile_dropWhile_id)
  also have "\<dots> = t" by (simp only: rev_rev_ident)
  finally have t: "t = rev (dropWhile P (rev t)) @ rev (takeWhile P (rev t))"
    by (rule sym)
  have s: "s = takeWhile P s @ t" by (simp add: t_def)
  have "s = takeWhile P s @ rev (dropWhile P (rev t)) @ rev (takeWhile P (rev t))"
    using s t by metis
  moreover have "\<forall>c\<in>set (takeWhile P s). P c" by (auto dest: set_takeWhileD)
  moreover have "\<forall>c\<in>set (rev (takeWhile P (rev t))). P c" by (auto dest: set_takeWhileD)
  ultimately show ?thesis unfolding t_def by blast
qed

lemma strip_decomp:
  "\<exists>pre suf. s = pre @ strip s @ suf \<and> (\<forall>c\<in>set pre. isspace c) \<and> (\<forall>c\<in>set suf. isspace c)"
  unfolding strip_def by (rule strip_by_decomp)

lemma strip_chars_decomp:
  "\<exists>pre suf. s = pre @ strip_chars chars s @ suf \<and> set pre \<subseteq> set chars \<and> set suf \<subseteq> set chars"
  using strip_by_decomp [of s "\<lambda>c. c \<in> set chars"] unfolding strip_chars_def by blast

lemma startswith_drop:
  "startswith s p \<Longrightarrow> s = p @ drop (length p) s"
  unfolding startswith_def by (metis append_take_drop_id)

text \<open>
  C10. \<^verbatim>\<open>clean_file_path\<close> only cuts at the two ends: the input is white space, then
  nothing or one "& ", then quote characters, then the string given to \<^verbatim>\<open>Path\<close>,
  then quote characters, then white space. So that string is a contiguous part of the
  input, with its inner characters as they were.
\<close>

theorem clean_file_path_substring:
  "\<exists>ws1 amp q1 cleaned q2 ws2.
     clean_file_path raw_path = Path cleaned \<and>
     raw_path = ws1 @ amp @ q1 @ cleaned @ q2 @ ws2 \<and>
     sublist cleaned raw_path \<and>
     (\<forall>c \<in> set ws1 \<union> set ws2. isspace c) \<and>
     (amp = [] \<or> amp = ''& '') \<and>
     set q1 \<union> set q2 \<subseteq> {CHR 0x22, CHR 0x27}"
proof -
  define s1 where "s1 = strip raw_path"
  define s2 where "s2 = (if startswith s1 ''& '' then drop 2 s1 else s1)"
  define s3 where "s3 = strip_chars [CHR 0x22] s2"
  define s4 where "s4 = strip_chars [CHR 0x27] s3"
  have res: "clean_file_path raw_path = Path s4"
    by (simp add: clean_file_path_def Let_def s1_def s2_def s3_def s4_def)
  obtain ws1 ws2 where 1: "raw_path = ws1 @ s1 @ ws2"
      and ws: "\<forall>c\<in>set ws1. isspace c" "\<forall>c\<in>set ws2. isspace c"
    using strip_decomp [of raw_path] unfolding s1_def by blast
  obtain amp where 2: "s1 = amp @ s2" and amp: "amp = [] \<or> amp = ''& ''"
  proof (cases "startswith s1 ''& ''")
    case True
    then have "s1 = ''& '' @ s2" using startswith_drop [of s1 "''& ''"]
      by (simp add: s2_def numeral_2_eq_2)
    then show ?thesis using that by blast
  next
    case False
    then have "s1 = [] @ s2" by (simp add: s2_def)
    then show ?thesis using that by blast
  qed
  obtain d1 d2 where 3: "s2 = d1 @ s3 @ d2"
      and d: "set d1 \<subseteq> {CHR 0x22}" "set d2 \<subseteq> {CHR 0x22}"
    using strip_chars_decomp [of s2 "[CHR 0x22]"] unfolding s3_def by auto
  obtain e1 e2 where 4: "s3 = e1 @ s4 @ e2"
      and e: "set e1 \<subseteq> {CHR 0x27}" "set e2 \<subseteq> {CHR 0x27}"
    using strip_chars_decomp [of s3 "[CHR 0x27]"] unfolding s4_def by auto
  have whole: "raw_path = ws1 @ amp @ (d1 @ e1) @ s4 @ (e2 @ d2) @ ws2"
    using 1 2 3 4 by simp
  then have "raw_path = (ws1 @ amp @ d1 @ e1) @ s4 @ (e2 @ d2 @ ws2)" by simp
  then have sub: "sublist s4 raw_path" unfolding sublist_def by blast
  have q: "set (d1 @ e1) \<union> set (e2 @ d2) \<subseteq> {CHR 0x22, CHR 0x27}"
    using d e by auto
  have w: "\<forall>c \<in> set ws1 \<union> set ws2. isspace c" using ws by blast
  from res whole sub w amp q show ?thesis by blast
qed

theorem clean_file_path_substring_witness:
  "clean_file_path ''  & 'saves/game 1.sav'  '' = Path ''saves/game 1.sav'' \<and>
   sublist ''saves/game 1.sav'' ''  & 'saves/game 1.sav'  ''"
proof -
  have c: "clean_file_path ''  & 'saves/game 1.sav'  '' = Path ''saves/game 1.sav''"
    by (simp add: clean_file_path_def strip_def strip_chars_def startswith_def isspace_def Let_def)
  show ?thesis
    using clean_file_path_substring [of "''  & 'saves/game 1.sav'  ''"] c by auto
qed

end
